theory Spec2Isabelle
  imports Main
begin

section \<open>Data model of \<^verbatim>\<open>src/chatbot/server.py\<close>\<close>

text \<open>
  A conversation turn is the dictionary \<^verbatim>\<open>{"role": r, "content": c}\<close>; a broadcast
  is the dictionary \<^verbatim>\<open>{'update': u, 'voice': v}\<close> handed to \<^verbatim>\<open>socketio.emit\<close>.
  Python strings are modelled as \<^typ>\<open>string\<close>, one \<^typ>\<open>char\<close> for each character,
  so that \<^term>\<open>length\<close> is Python's \<^verbatim>\<open>len\<close>.
\<close>

record turn =
  role :: string
  content :: string

record event =
  update :: string
  voice :: string

definition system_turn :: "string \<Rightarrow> turn" where
  "system_turn baseprompt = \<lparr>role = ''system'', content = baseprompt\<rparr>"

definition user_turn :: "string \<Rightarrow> turn" where
  "user_turn p = \<lparr>role = ''user'', content = p\<rparr>"

definition assistant_turn :: "string \<Rightarrow> turn" where
  "assistant_turn t = \<lparr>role = ''assistant'', content = t\<rparr>"

definition emit :: "string \<Rightarrow> string \<Rightarrow> event" where
  "emit u v = \<lparr>update = u, voice = v\<rparr>"

section \<open>The overflow branch of \<^verbatim>\<open>ask\<close> (lines 91 to 103)\<close>

text \<open>
  \<^verbatim>\<open>xs[k:]\<close> of Python for an integer \<open>k\<close>: a negative \<open>k\<close> counts from the end and
  is clamped at the start of the list.
\<close>

definition slice_from :: "'a list \<Rightarrow> int \<Rightarrow> 'a list" where
  "slice_from xs k =
     (if k < 0 then drop (nat (int (length xs) + k)) xs else drop (nat k) xs)"

text \<open>
  \<^verbatim>\<open>prompt[:len(prompt)//4] + " ... " + prompt[-len(prompt)//4:]\<close>. The unary minus
  binds tighter than \<^verbatim>\<open>//\<close>, so the last slice starts at the floor of \<open>- n / 4\<close>.
\<close>

definition cut_middle :: "string \<Rightarrow> string" where
  "cut_middle p =
     take (length p div 4) p @ '' ... '' @ slice_from p ((- int (length p)) div 4)"

text \<open>
  The three branches taken after \<^verbatim>\<open>context.pop()\<close> when the error text contains
  \<^verbatim>\<open>maximum context length\<close>: the new prompt, the new context and the events
  broadcast by the branch.
\<close>

definition overflow_repair ::
  "string \<Rightarrow> string \<Rightarrow> turn list \<Rightarrow> string \<times> turn list \<times> event list" where
  "overflow_repair baseprompt p ctx =
     (if length p > 1000 then (cut_middle p, ctx, [])
      else if length ctx > 4 then (p, take 1 ctx @ drop 3 ctx, [])
      else (p, [system_turn baseprompt], [emit ''[Memory Reset]'' ''user'']))"

section \<open>Globals, configuration and the provider\<close>

text \<open>
  The module globals \<^verbatim>\<open>prompt\<close>, \<^verbatim>\<open>visible\<close>, \<^verbatim>\<open>remember\<close> and \<^verbatim>\<open>context\<close>,
  the local \<^verbatim>\<open>completion_text\<close> of \<^verbatim>\<open>send_update\<close> (which lives across the
  iterations of its \<^verbatim>\<open>while True\<close> loop and is unbound until its first assignment),
  and the log of everything passed to \<^verbatim>\<open>socketio.emit\<close>.
\<close>

record state =
  prompt :: string
  visible :: bool
  remember :: bool
  context' :: "turn list"
  completion_text :: "string option"
  emitted :: "event list"

record config =
  baseprompt :: string
  DEBUG :: bool

definition initial :: "config \<Rightarrow> state" where
  "initial cfg =
     \<lparr>prompt = '''', visible = True, remember = True,
      context' = [system_turn (baseprompt cfg)],
      completion_text = None, emitted = []\<rparr>"

text \<open>
  One event of the response stream is \<^verbatim>\<open>event['choices'][0]['delta']\<close>, with or
  without a \<^verbatim>\<open>content\<close> key. One call of \<^verbatim>\<open>openai.ChatCompletion.create\<close> returns a
  stream (its events, and whether iterating it raises after them), raises an
  \<^verbatim>\<open>openai.error.OpenAIError\<close> with a message, or raises any other exception.

  The call blocks on the network while the Flask request handlers keep running in their
  own threads, so each call also records whether the handler \<^verbatim>\<open>index\<close> of the route
  \<^verbatim>\<open>/\<close> ran while the request was in flight. The provider is a script: the list of
  its calls, in order.
\<close>

datatype delta = Content string | NoContent

datatype outcome = Stream "delta list" bool | OpenAIError string | OtherError

record call =
  reloaded :: bool
  outcome :: outcome

section \<open>Route \<^verbatim>\<open>/\<close> (lines 130 to 134)\<close>

definition index :: "config \<Rightarrow> state \<Rightarrow> state" where
  "index cfg s = s\<lparr>context' := [system_turn (baseprompt cfg)]\<rparr>"

section \<open>\<^verbatim>\<open>ask\<close> (lines 71 to 108)\<close>

text \<open>\<^verbatim>\<open>sub in s\<close> on Python strings.\<close>

fun contains :: "string \<Rightarrow> string \<Rightarrow> bool" where
  "contains sub [] = (sub = [])"
| "contains sub (c # cs) = (take (length sub) (c # cs) = sub \<or> contains sub cs)"

text \<open>\<^verbatim>\<open>list.pop()\<close> raises \<^verbatim>\<open>IndexError\<close> on the empty list: \<^term>\<open>None\<close>.\<close>

definition pop :: "'a list \<Rightarrow> 'a list option" where
  "pop xs = (if xs = [] then None else Some (butlast xs))"

text \<open>
  The state while the request of line 80 is in flight: the user turn is appended
  (line 79), and a page load during the call has rebound \<^verbatim>\<open>context\<close>.
\<close>

definition in_flight :: "config \<Rightarrow> call \<Rightarrow> string \<Rightarrow> state \<Rightarrow> state" where
  "in_flight cfg c p s =
     (let s1 = s\<lparr>context' := context' s @ [user_turn p]\<rparr>
      in if reloaded c then index cfg s1 else s1)"

text \<open>
  \<^verbatim>\<open>ask\<close> returns the response with the new globals, or lets an exception escape, or
  is still inside its \<^verbatim>\<open>while not response\<close> loop when the script ends.
\<close>

datatype ask_result = Returned "delta list" bool state | Raised state | Blocked state

fun ask :: "config \<Rightarrow> call list \<Rightarrow> string \<Rightarrow> state \<Rightarrow> ask_result" where
  "ask cfg [] p s = Blocked (s\<lparr>context' := context' s @ [user_turn p]\<rparr>)"
| "ask cfg (c # cs) p s =
     (let s1 = in_flight cfg c p s in
      case outcome c of
        Stream evs fails \<Rightarrow>
          (if remember s1 then Returned evs fails s1
           else (case pop (context' s1) of
                   None \<Rightarrow> Raised (s1\<lparr>remember := True\<rparr>)
                 | Some ctx \<Rightarrow> Returned evs fails (s1\<lparr>remember := True, context' := ctx\<rparr>)))
      | OtherError \<Rightarrow> Raised s1
      | OpenAIError msg \<Rightarrow>
          (case pop (context' s1) of
             None \<Rightarrow> Raised s1
           | Some ctx \<Rightarrow>
               if contains ''maximum context length'' msg then
                 (case overflow_repair (baseprompt cfg) p ctx of
                    (p', ctx', evs) \<Rightarrow>
                      ask cfg cs p' (s1\<lparr>context' := ctx', emitted := emitted s1 @ evs\<rparr>))
               else ask cfg cs p (s1\<lparr>context' := ctx\<rparr>)))"



section \<open>\<^verbatim>\<open>extract_text_from_blog\<close> and \<^verbatim>\<open>send_message\<close> (lines 110 to 163)\<close>

text \<open>
  \<^verbatim>\<open>requests.get\<close> and the paragraph texts found by the parser are parameters.
  The function returns \<^verbatim>\<open>None\<close> on every path but the one of line 123.
\<close>

datatype http_reply = Reply int string | RequestFails

fun join :: "string \<Rightarrow> string list \<Rightarrow> string" where
  "join sep [] = []"
| "join sep [x] = x"
| "join sep (x # y # ys) = x @ sep @ join sep (y # ys)"

definition extract_text_from_blog ::
  "(string \<Rightarrow> http_reply) \<Rightarrow> (string \<Rightarrow> string list) \<Rightarrow> string \<Rightarrow> string option" where
  "extract_text_from_blog http_get paragraphs url =
     (case http_get url of
        RequestFails \<Rightarrow> None
      | Reply status_code text \<Rightarrow>
          if status_code = 200 then Some (join [CHR 0x0A] (paragraphs text)) else None)"

definition starts_with :: "string \<Rightarrow> string \<Rightarrow> bool" where
  "starts_with pre s = (take (length pre) s = pre)"

definition is_space :: "char \<Rightarrow> bool" where
  "is_space c = (of_char c \<in> {9, 10, 11, 12, 13, 28, 29, 30, 31, 32 :: nat})"

definition strip :: "string \<Rightarrow> string" where
  "strip s = rev (dropWhile is_space (rev (dropWhile is_space s)))"

text \<open>
  The handler answers, or \<^verbatim>\<open>len(blogtext)\<close> of line 158 raises \<^verbatim>\<open>TypeError\<close> on
  \<^verbatim>\<open>None\<close> and the globals stay as they were set before that line.
\<close>

datatype reply = Accepted state | TypeError state

definition send_message ::
  "(string \<Rightarrow> http_reply) \<Rightarrow> (string \<Rightarrow> string list) \<Rightarrow> string \<Rightarrow> bool \<Rightarrow> state \<Rightarrow> reply" where
  "send_message http_get paragraphs p shw s =
     (let s1 = s\<lparr>visible := shw\<rparr> in
      if starts_with ''http'' p then
        (let s2 = s1\<lparr>visible := False, remember := False\<rparr> in
         case extract_text_from_blog http_get paragraphs (strip p) of
           None \<Rightarrow> TypeError s2
         | Some blogtext \<Rightarrow>
             Accepted (s2\<lparr>emitted := emitted s2 @ [emit (''[Reading: '' @ p @ '']'') ''user''],
                          prompt := ''Summarize the following text:'' @ [CHR 0x0A] @ blogtext\<rparr>))
      else Accepted (s1\<lparr>prompt := p\<rparr>))"


section \<open>One iteration of the loop of \<^verbatim>\<open>send_update\<close> (lines 175 to 206)\<close>

text \<open>The \<^verbatim>\<open>for event in response\<close> loop, with its two accumulators.\<close>

fun stream_loop :: "delta list \<Rightarrow> string \<Rightarrow> event list \<Rightarrow> string \<times> event list" where
  "stream_loop [] text out = (text, out)"
| "stream_loop (NoContent # es) text out = stream_loop es text out"
| "stream_loop (Content chunk # es) text out =
     stream_loop es (text @ chunk) (out @ [emit chunk ''ai''])"

text \<open>
  The iteration ends and the loop polls again, or an exception leaves \<^verbatim>\<open>send_update\<close>
  (the thread dies), or the iteration is still inside \<^verbatim>\<open>ask\<close>.
\<close>

datatype run = Finished state | Unhandled state | Pending state

text \<open>The \<^verbatim>\<open>except:\<close> block, lines 199 to 201.\<close>

definition on_error :: "config \<Rightarrow> state \<Rightarrow> state" where
  "on_error cfg s =
     s\<lparr>emitted := emitted s @ [emit ''An error occurred - unable to complete.'' ''ai''],
       context' := [system_turn (baseprompt cfg)]\<rparr>"

text \<open>
  Lines 203 to 206. The \<^verbatim>\<open>print\<close> of line 206 reads \<^verbatim>\<open>completion_text\<close>, which
  raises \<^verbatim>\<open>UnboundLocalError\<close> while the local has never been assigned.
\<close>

definition signal_done :: "config \<Rightarrow> state \<Rightarrow> run" where
  "signal_done cfg s =
     (let s1 = s\<lparr>emitted := emitted s @ [emit '''' ''done''], prompt := ''''\<rparr>
      in if DEBUG cfg \<and> completion_text s1 = None then Unhandled s1 else Finished s1)"

text \<open>Lines 178 to 180: the prompt is echoed to the viewers when \<^verbatim>\<open>visible\<close> is set.\<close>

definition echoed :: "state \<Rightarrow> state" where
  "echoed s = (if visible s then s\<lparr>emitted := emitted s @ [emit (prompt s) ''user'']\<rparr> else s)"

definition send_update_step :: "config \<Rightarrow> call list \<Rightarrow> state \<Rightarrow> run" where
  "send_update_step cfg script s =
     (if prompt s = '''' then Finished s
      else
        case ask cfg script (prompt s) (echoed s) of
             Blocked b \<Rightarrow> Pending b
           | Raised r \<Rightarrow> signal_done cfg (on_error cfg r)
           | Returned evs fails r \<Rightarrow>
               (case stream_loop evs '''' [] of
                  (text, out) \<Rightarrow>
                    let r1 = r\<lparr>completion_text := Some text, emitted := emitted r @ out\<rparr>
                    in if fails then signal_done cfg (on_error cfg r1)
                       else signal_done cfg (r1\<lparr>context' := context' r1 @ [assistant_turn text]\<rparr>)))"


text \<open>The content fragments of a stream, in order.\<close>

fun fragments :: "delta list \<Rightarrow> string list" where
  "fragments [] = []"
| "fragments (NoContent # es) = fragments es"
| "fragments (Content chunk # es) = chunk # fragments es"

section \<open>Reachable states\<close>




section \<open>Lemmas on the overflow branch\<close>



lemma cut_middle_quarters:
  "p \<noteq> [] \<Longrightarrow>
   cut_middle p = take (length p div 4) p @ '' ... '' @ drop (length p - (length p + 3) div 4) p"
proof -
  assume "p \<noteq> []"
  then have "0 < length p" by simp
  then have k: "(- int (length p)) div 4 < 0" by linarith
  have "nat (int (length p) + (- int (length p)) div 4) = length p - (length p + 3) div 4"
    by linarith
  then show ?thesis using k by (simp add: cut_middle_def slice_from_def)
qed







section \<open>The overflow ladder\<close>

text \<open>
  Claim C4. When the provider raises an error whose text contains
  \<^verbatim>\<open>maximum context length\<close>, the turn appended for the request is popped and exactly
  one branch runs, tested in this order: a prompt longer than 1000 characters becomes its
  first quarter, the separator and its last quarter, and the context is left as it is;
  otherwise a context of more than 4 turns loses the turns at positions 1 and 2;
  otherwise the context becomes the system turn alone and \<^verbatim>\<open>[Memory Reset]\<close> is
  broadcast. In each case the request is made again.
\<close>

theorem overflow_ladder:
  assumes "outcome c = OpenAIError msg"
    and "contains ''maximum context length'' msg"
    and "pop (context' (in_flight cfg c p s)) = Some ctx"
  shows "ask cfg (c # cs) p s =
     (if length p > 1000 then
        ask cfg cs
          (take (length p div 4) p @ '' ... '' @ drop (length p - (length p + 3) div 4) p)
          ((in_flight cfg c p s)\<lparr>context' := ctx\<rparr>)
      else if length ctx > 4 then
        ask cfg cs p ((in_flight cfg c p s)\<lparr>context' := take 1 ctx @ drop 3 ctx\<rparr>)
      else
        ask cfg cs p
          ((in_flight cfg c p s)
             \<lparr>context' := [system_turn (baseprompt cfg)],
              emitted := emitted (in_flight cfg c p s) @ [emit ''[Memory Reset]'' ''user'']\<rparr>))"
proof -
  have "length p > 1000 \<Longrightarrow> p \<noteq> []" by auto
  then show ?thesis
    using assms by (simp add: overflow_repair_def cut_middle_quarters Let_def)
qed

theorem overflow_ladder_witness:
  "outcome \<lparr>reloaded = False, outcome = OpenAIError ''maximum context length''\<rparr>
     = OpenAIError ''maximum context length'' \<and>
   contains ''maximum context length'' ''maximum context length'' \<and>
   pop (context' (in_flight \<lparr>baseprompt = ''B'', DEBUG = False\<rparr>
          \<lparr>reloaded = False, outcome = OpenAIError ''maximum context length''\<rparr> ''hi''
          (initial \<lparr>baseprompt = ''B'', DEBUG = False\<rparr>))) = Some [system_turn ''B''] \<and>
   ask \<lparr>baseprompt = ''B'', DEBUG = False\<rparr>
     [\<lparr>reloaded = False, outcome = OpenAIError ''maximum context length''\<rparr>] ''hi''
     (initial \<lparr>baseprompt = ''B'', DEBUG = False\<rparr>) =
   Blocked \<lparr>prompt = '''', visible = True, remember = True,
             context' = [system_turn ''B'', user_turn ''hi''], completion_text = None,
             emitted = [emit ''[Memory Reset]'' ''user'']\<rparr>"
proof -
  let ?cfg = "\<lparr>baseprompt = ''B'', DEBUG = False\<rparr>"
  let ?c = "\<lparr>reloaded = False, outcome = OpenAIError ''maximum context length''\<rparr>"
  have o: "outcome ?c = OpenAIError ''maximum context length''" by simp
  have m: "contains ''maximum context length'' ''maximum context length''" by simp
  have p: "pop (context' (in_flight ?cfg ?c ''hi'' (initial ?cfg))) = Some [system_turn ''B'']"
    by (simp add: in_flight_def initial_def pop_def)
  show ?thesis
    using overflow_ladder [OF o m p, of "[]"] o m p
    by (simp add: in_flight_def initial_def)
qed




section \<open>Lemmas on the relay loop\<close>

lemma stream_loop_fragments:
  "stream_loop evs t out =
     (t @ concat (fragments evs), out @ map (\<lambda>chunk. emit chunk ''ai'') (fragments evs))"
  by (induction evs t out rule: stream_loop.induct) simp_all




section \<open>Provider errors that are not overflows\<close>




section \<open>Exchanges that are not remembered\<close>




section \<open>Streaming\<close>

text \<open>
  Claim C6. When \<^verbatim>\<open>ask\<close> returns a stream that is iterated to its end, the events
  broadcast after those of \<^verbatim>\<open>ask\<close> are one \<^verbatim>\<open>ai\<close> event for each content fragment,
  in the order of the stream (events without content are skipped), then the done event;
  the turn appended to the context is the assistant turn whose content is the
  concatenation of those fragments.
\<close>

theorem stream_commit:
  assumes "prompt s \<noteq> ''''"
    and "ask cfg script (prompt s) (echoed s) = Returned evs False r"
  shows "send_update_step cfg script s =
     Finished (r\<lparr>completion_text := Some (concat (fragments evs)),
                 emitted := emitted r @ map (\<lambda>chunk. emit chunk ''ai'') (fragments evs)
                              @ [emit '''' ''done''],
                 context' := context' r @ [assistant_turn (concat (fragments evs))],
                 prompt := ''''\<rparr>)"
  using assms
  by (simp add: send_update_step_def stream_loop_fragments signal_done_def)

theorem stream_commit_witness:
  "prompt ((initial \<lparr>baseprompt = ''B'', DEBUG = False\<rparr>)\<lparr>prompt := ''hi''\<rparr>) \<noteq> '''' \<and>
   ask \<lparr>baseprompt = ''B'', DEBUG = False\<rparr>
     [\<lparr>reloaded = False, outcome = Stream [Content ''o'', NoContent, Content ''k''] False\<rparr>] ''hi''
     (echoed ((initial \<lparr>baseprompt = ''B'', DEBUG = False\<rparr>)\<lparr>prompt := ''hi''\<rparr>))
   = Returned [Content ''o'', NoContent, Content ''k''] False
       \<lparr>prompt = ''hi'', visible = True, remember = True,
        context' = [system_turn ''B'', user_turn ''hi''], completion_text = None,
        emitted = [emit ''hi'' ''user'']\<rparr> \<and>
   send_update_step \<lparr>baseprompt = ''B'', DEBUG = False\<rparr>
     [\<lparr>reloaded = False, outcome = Stream [Content ''o'', NoContent, Content ''k''] False\<rparr>]
     ((initial \<lparr>baseprompt = ''B'', DEBUG = False\<rparr>)\<lparr>prompt := ''hi''\<rparr>)
   = Finished \<lparr>prompt = '''', visible = True, remember = True,
       context' = [system_turn ''B'', user_turn ''hi'', assistant_turn ''ok''],
       completion_text = Some ''ok'',
       emitted = [emit ''hi'' ''user'', emit ''o'' ''ai'', emit ''k'' ''ai'', emit '''' ''done'']\<rparr>"
proof -
  let ?cfg = "\<lparr>baseprompt = ''B'', DEBUG = False\<rparr>"
  let ?script = "[\<lparr>reloaded = False, outcome = Stream [Content ''o'', NoContent, Content ''k''] False\<rparr>]"
  let ?s = "(initial ?cfg)\<lparr>prompt := ''hi''\<rparr>"
  have p: "prompt ?s \<noteq> ''''" by simp
  have a: "ask ?cfg ?script (prompt ?s) (echoed ?s)
     = Returned [Content ''o'', NoContent, Content ''k''] False
       \<lparr>prompt = ''hi'', visible = True, remember = True,
        context' = [system_turn ''B'', user_turn ''hi''], completion_text = None,
        emitted = [emit ''hi'' ''user'']\<rparr>"
    by (simp add: initial_def echoed_def in_flight_def)
  show ?thesis
    using stream_commit [OF p a] p a by simp
qed

section \<open>Exceptions that leave the relay loop\<close>

text \<open>
  Claim C8 fails on the code. With the debug flag on, in the first exchange of the
  thread, an exception that escapes \<^verbatim>\<open>ask\<close> is handled by the \<^verbatim>\<open>except:\<close> block,
  the done event is broadcast and the prompt is cleared; then line 206 reads
  \<^verbatim>\<open>completion_text\<close>, which line 184 never assigned, and the exception leaves
  \<^verbatim>\<open>send_update\<close>.
\<close>

theorem debug_crash:
  "send_update_step \<lparr>baseprompt = ''B'', DEBUG = True\<rparr>
     [\<lparr>reloaded = False, outcome = OtherError\<rparr>]
     ((initial \<lparr>baseprompt = ''B'', DEBUG = True\<rparr>)\<lparr>prompt := ''hi''\<rparr>)
   = Unhandled \<lparr>prompt = '''', visible = True, remember = True,
       context' = [system_turn ''B''], completion_text = None,
       emitted = [emit ''hi'' ''user'', emit ''An error occurred - unable to complete.'' ''ai'',
                  emit '''' ''done'']\<rparr>"
  by (simp add: send_update_step_def initial_def in_flight_def echoed_def
                signal_done_def on_error_def Let_def)

section \<open>Failed fetches\<close>

text \<open>
  Claim C9 fails on the code. \<^verbatim>\<open>extract_text_from_blog\<close> returns \<^verbatim>\<open>None\<close> for a
  status other than 200 and for an exception of the request, and \<^verbatim>\<open>send_message\<close>
  raises on \<^verbatim>\<open>len(None)\<close>: no prompt is stored, and \<^verbatim>\<open>visible\<close> and \<^verbatim>\<open>remember\<close>
  stay false.
\<close>

theorem failed_fetch_raises:
  "extract_text_from_blog (\<lambda>url. Reply 404 ''Not Found'') (\<lambda>text. []) ''http://example.com/post''
     = None \<and>
   extract_text_from_blog (\<lambda>url. RequestFails) (\<lambda>text. []) ''http://example.com/post'' = None \<and>
   send_message (\<lambda>url. Reply 404 ''Not Found'') (\<lambda>text. []) ''http://example.com/post'' True
     (initial \<lparr>baseprompt = ''B'', DEBUG = False\<rparr>)
   = TypeError \<lparr>prompt = '''', visible = False, remember = False,
       context' = [system_turn ''B''], completion_text = None, emitted = []\<rparr>"
  by (simp add: extract_text_from_blog_def send_message_def starts_with_def initial_def)

section \<open>The done event\<close>



section \<open>Lemmas on the context\<close>





section \<open>The system turn\<close>




section \<open>The prompt slot\<close>



end
